theory Spec2Isabelle
  imports Complex_Main "HOL-Library.List_Lexorder" "HOL-Library.Char_ord"
    "HOL-Library.Product_Lexorder"
begin

section \<open>Values exchanged with the FAOSTAT API\<close>

text \<open>
  The client hands the parsed JSON payload of a response to the pipeline. A JSON object
  is a Python \<^verbatim>\<open>dict\<close>: an association list whose order is the insertion order and
  whose lookup is \<open>map_of\<close>. The keys of a Python dict are pairwise different; no
  result below depends on it. Numbers are kept exact (rationals); rounding of IEEE
  doubles is outside the model.
\<close>

datatype json =
    JNull
  | JBool bool
  | JNum rat
  | JStr string
  | JList "json list"
  | JDict "(string \<times> json) list"

type_synonym pydict = "(string \<times> json) list"

text \<open>The exception classes the code raises or lets through.\<close>

datatype error =
    FAOSTATAuthError string
  | FAOSTATRateLimitError string
  | HTTPStatusError nat
  | TransportError
  | ValueError string
  | TypeError
  | AssertionError
  | Abort

fun isinstance_list :: "json \<Rightarrow> bool" where
  "isinstance_list (JList xs) = True"
| "isinstance_list v = False"

fun isinstance_dict :: "json \<Rightarrow> bool" where
  "isinstance_dict (JDict d) = True"
| "isinstance_dict v = False"

section \<open>Envelope extraction (cleaner.py) and the presence check (pipeline.py)\<close>

definition wrapper_keys :: "string list" where
  "wrapper_keys = [''data'', ''Data'', ''items'', ''results'']"

text \<open>
  The \<^verbatim>\<open>for key in (...)\<close> loop of \<^verbatim>\<open>_extract_records\<close>: \<open>Some xs\<close> is the
  \<^verbatim>\<open>return raw[key]\<close> inside the loop, \<open>None\<close> is falling out of it.
\<close>

fun extract_loop :: "string list \<Rightarrow> pydict \<Rightarrow> json list option" where
  "extract_loop [] raw = None"
| "extract_loop (key # keys) raw =
     (case map_of raw key of
        Some (JList xs) \<Rightarrow> Some xs
      | _ \<Rightarrow> extract_loop keys raw)"

fun is_prefix :: "string \<Rightarrow> string \<Rightarrow> bool" where
  "is_prefix [] s = True"
| "is_prefix (p # ps) [] = False"
| "is_prefix (p # ps) (c # cs) = (p = c \<and> is_prefix ps cs)"

text \<open>Python's \<^verbatim>\<open>sub in s\<close> on strings.\<close>

fun str_contains :: "string \<Rightarrow> string \<Rightarrow> bool" where
  "str_contains sub [] = (sub = [])"
| "str_contains sub (c # cs) = (is_prefix sub (c # cs) \<or> str_contains sub cs)"

text \<open>
  \<^verbatim>\<open>_extract_records\<close>. The annotation admits a list or a dict; on the other JSON
  values \<^verbatim>\<open>key in raw\<close> raises \<^verbatim>\<open>TypeError\<close>, except on a string, where it is a
  substring test and the following \<^verbatim>\<open>raw[key]\<close> raises.
\<close>

fun extract_records :: "json \<Rightarrow> error + json list" where
  "extract_records (JList xs) = Inr xs"
| "extract_records (JDict raw) =
     (case extract_loop wrapper_keys raw of
        Some xs \<Rightarrow> Inr xs
      | None \<Rightarrow> Inr (if raw \<noteq> [] then [JDict raw] else []))"
| "extract_records (JStr s) =
     (if list_ex (\<lambda>key. str_contains key s) wrapper_keys then Inl TypeError
      else Inr (if s \<noteq> [] then [JStr s] else []))"
| "extract_records v = Inl TypeError"

text \<open>The loop of \<^verbatim>\<open>_response_has_data\<close>, with the same convention.\<close>

fun has_data_loop :: "string list \<Rightarrow> pydict \<Rightarrow> bool option" where
  "has_data_loop [] raw = None"
| "has_data_loop (key # keys) raw =
     (case map_of raw key of
        Some (JList xs) \<Rightarrow> Some (length xs > 0)
      | _ \<Rightarrow> has_data_loop keys raw)"

fun response_has_data :: "json \<Rightarrow> bool" where
  "response_has_data JNull = False"
| "response_has_data (JList xs) = (length xs > 0)"
| "response_has_data (JDict raw) =
     (case has_data_loop wrapper_keys raw of
        Some b \<Rightarrow> b
      | None \<Rightarrow> False)"
| "response_has_data v = False"

text \<open>
  The claim's wording of extraction, written independently of the loop: the first
  wrapper key, in the fixed order, whose value is a list.
\<close>

definition holds_list :: "pydict \<Rightarrow> string \<Rightarrow> bool" where
  "holds_list raw key = (case map_of raw key of Some (JList xs) \<Rightarrow> True | _ \<Rightarrow> False)"

definition list_under :: "pydict \<Rightarrow> string \<Rightarrow> json list" where
  "list_under raw key = (case map_of raw key of Some (JList xs) \<Rightarrow> xs | _ \<Rightarrow> [])"

definition extraction_spec :: "json \<Rightarrow> json list" where
  "extraction_spec raw =
     (case raw of
        JList xs \<Rightarrow> xs
      | JDict d \<Rightarrow>
          (case find (holds_list d) [''data'', ''Data'', ''items'', ''results''] of
             Some key \<Rightarrow> list_under d key
           | None \<Rightarrow> if d \<noteq> [] then [JDict d] else [])
      | _ \<Rightarrow> [])"

section \<open>The HTTP client (client.py)\<close>

text \<open>
  One HTTP exchange either fails at the transport level (connection, timeout) or yields a
  response with a status code and a body. The body is kept in the three forms the client
  distinguishes: empty, JSON, or text that is not JSON. The remote API is a function from
  the number of requests issued so far and the request to the exchange it produces.
\<close>

datatype body = NoContent | JsonBody json | TextBody string

datatype exchange = ConnFailure | Response nat body

datatype request = GET string pydict | POST string json

type_synonym server = "nat \<Rightarrow> request \<Rightarrow> exchange"

text \<open>Paths are lists of components; \<^verbatim>\<open>Path(output_dir) / domain_code\<close> appends one.\<close>

type_synonym path = "string list"

text \<open>
  A frame is pandas' \<^verbatim>\<open>DataFrame\<close>: column labels in order (repetitions are possible
  after renaming) and rows of cells. \<open>JNull\<close> stands for every missing marker of
  pandas (\<^verbatim>\<open>None\<close>, \<^verbatim>\<open>NaN\<close>, \<^verbatim>\<open>pd.NA\<close>).
\<close>

record frame =
  columns :: "string list"
  rows :: "json list list"

datatype file_content = CsvFile frame | ParquetFile frame string

text \<open>
  The state the program acts on: the number of HTTP requests issued, the number of times
  the body of a retried call was entered, and the file system (directories and files).
  Waiting (the rate limiter, the backoff between attempts) has no effect on this state.
\<close>

record world =
  sent :: nat
  attempts :: nat
  dirs :: "path set"
  files :: "path \<rightharpoonup> file_content"

record client =
  token :: string
  base_url :: string
  opened :: bool

text \<open>
  \<^verbatim>\<open>_retry_on_transient\<close>, on the outcome of an attempt: \<open>Inr\<close> is a returned value
  (\<^verbatim>\<open>exc is None\<close>), \<open>Inl\<close> the exception raised.
\<close>

definition retry_on_transient :: "error + 'a \<Rightarrow> bool" where
  "retry_on_transient outcome =
     (case outcome of
        Inr v \<Rightarrow> False
      | Inl TransportError \<Rightarrow> True
      | Inl (HTTPStatusError status_code) \<Rightarrow> status_code \<ge> 500
      | Inl e \<Rightarrow> False)"

text \<open>
  \<^verbatim>\<open>_raise_for_status\<close>. The messages are shortened (the server's text is left out).
  The last line is httpx's \<^verbatim>\<open>response.raise_for_status()\<close>, which raises
  \<^verbatim>\<open>HTTPStatusError\<close> unless the status is 2xx.
\<close>

definition raise_for_status :: "nat \<Rightarrow> error + unit" where
  "raise_for_status status_code =
     (if status_code = 401 then Inl (FAOSTATAuthError ''401 Unauthorized'')
      else if status_code = 403 then Inl (FAOSTATAuthError ''403 Forbidden'')
      else if status_code = 429 then Inl (FAOSTATRateLimitError ''429 Rate limit exceeded'')
      else if 200 \<le> status_code \<and> status_code \<le> 299 then Inr ()
      else Inl (HTTPStatusError status_code))"

text \<open>What \<^verbatim>\<open>get\<close> and \<^verbatim>\<open>post\<close> return once the status check has passed.\<close>

definition payload :: "nat \<Rightarrow> body \<Rightarrow> json" where
  "payload status_code b =
     (case b of
        NoContent \<Rightarrow> JDict [(''status'', JNum (of_nat status_code))]
      | JsonBody v \<Rightarrow> v
      | TextBody t \<Rightarrow> JDict [(''status'', JNum (of_nat status_code)), (''text'', JStr t)])"

text \<open>
  The body shared by \<^verbatim>\<open>get\<close> and \<^verbatim>\<open>post\<close>, one attempt: throttle, assert that the
  client is open, issue the request, check the status, decode.
\<close>

definition request_attempt ::
  "server \<Rightarrow> client \<Rightarrow> request \<Rightarrow> world \<Rightarrow> (error + json) \<times> world" where
  "request_attempt srv c req w =
     (let w1 = w\<lparr>attempts := Suc (attempts w)\<rparr> in
      if \<not> opened c then (Inl AssertionError, w1)
      else
        let w2 = w1\<lparr>sent := Suc (sent w1)\<rparr> in
        case srv (sent w1) req of
          ConnFailure \<Rightarrow> (Inl TransportError, w2)
        | Response status_code b \<Rightarrow>
            (case raise_for_status status_code of
               Inl e \<Rightarrow> (Inl e, w2)
             | Inr u \<Rightarrow> (Inr (payload status_code b), w2)))"

text \<open>
  The decorator \<^verbatim>\<open>@retry(stop=stop_after_attempt(3), retry=_retry_on_transient,
  reraise=True)\<close>: after each attempt, an outcome the predicate rejects is returned (or
  raised) as it is; otherwise, once the attempt number has reached 3, the last exception
  is re-raised; otherwise the body runs again.
\<close>

function tenacity_retry ::
  "nat \<Rightarrow> ('w \<Rightarrow> (error + 'a) \<times> 'w) \<Rightarrow> 'w \<Rightarrow> (error + 'a) \<times> 'w" where
  "tenacity_retry attempt_number fn w =
     (case fn w of (outcome, w') \<Rightarrow>
        if \<not> retry_on_transient outcome then (outcome, w')
        else if attempt_number \<ge> 3 then (outcome, w')
        else tenacity_retry (Suc attempt_number) fn w')"
  by pat_completeness auto
termination
  by (relation "measure (\<lambda>(n, fn, w). 3 - n)") auto

declare tenacity_retry.simps [simp del]

definition send :: "server \<Rightarrow> client \<Rightarrow> request \<Rightarrow> world \<Rightarrow> (error + json) \<times> world" where
  "send srv c req = tenacity_retry 1 (request_attempt srv c req)"

definition get ::
  "server \<Rightarrow> client \<Rightarrow> string \<Rightarrow> pydict \<Rightarrow> world \<Rightarrow> (error + json) \<times> world" where
  "get srv c path params = send srv c (GET path params)"

definition post ::
  "server \<Rightarrow> client \<Rightarrow> string \<Rightarrow> json \<Rightarrow> world \<Rightarrow> (error + json) \<times> world" where
  "post srv c path js = send srv c (POST path js)"

text \<open>
  The environment of a run: the remote API, the token and base URL read from the process
  environment, whether \<^verbatim>\<open>_check_token_expiry\<close> finds the token expired, the clock
  (as ISO-8601 text) and the two library functions the code relies on: pandas' reading of
  a string as a number and Python's \<^verbatim>\<open>str\<close> of a cell.
\<close>

record env =
  server :: server
  API_TOKEN :: string
  BASE_URL :: string
  token_expired :: bool
  utcnow :: "world \<Rightarrow> string"
  numeric :: "string \<Rightarrow> rat option"
  py_str :: "json \<Rightarrow> string"

definition rstrip_slash :: "string \<Rightarrow> string" where
  "rstrip_slash s = rev (dropWhile (\<lambda>c. c = CHR ''/'') (rev s))"

text \<open>\<^verbatim>\<open>FAOSTATClient()\<close> with no arguments, then \<^verbatim>\<open>__aenter__\<close>.\<close>

definition new_client :: "env \<Rightarrow> error + client" where
  "new_client e =
     (if API_TOKEN e = [] then Inl (FAOSTATAuthError ''FAOSTAT_API_TOKEN is not set'')
      else if token_expired e then Inl (FAOSTATAuthError ''FAOSTAT_API_TOKEN expired'')
      else Inr \<lparr>token = API_TOKEN e, base_url = rstrip_slash (BASE_URL e), opened = False\<rparr>)"

definition aenter :: "client \<Rightarrow> client" where
  "aenter c = c\<lparr>opened := True\<rparr>"

text \<open>
  The exchanges the specification calls transient (a transport failure or a status of
  500 and above), and the exception such an exchange raises in \<open>request_attempt\<close>.
\<close>

fun transient :: "exchange \<Rightarrow> bool" where
  "transient ConnFailure = True"
| "transient (Response status_code b) = (status_code \<ge> 500)"

fun transient_error :: "exchange \<Rightarrow> error" where
  "transient_error ConnFailure = TransportError"
| "transient_error (Response status_code b) = HTTPStatusError status_code"

section \<open>Cleaning (cleaner.py)\<close>

text \<open>
  \<^verbatim>\<open>_to_snake_case\<close>. A character of a name is a code point, and \<open>char\<close> holds
  the code points below 256; on these the classes \<^verbatim>\<open>\s\<close> and \<^verbatim>\<open>\d\<close> of \<^verbatim>\<open>re\<close>
  and \<^verbatim>\<open>str.lower()\<close> are as tabulated here. A name with other code points is beyond
  \<open>string\<close>; the record \<open>pylib\<close> further down carries the renaming as a component, so
  that the general result on cleaning holds for whatever the function does on such names.
  The three \<^verbatim>\<open>re.sub\<close> passes are written as scans with a fixed look-ahead, which is
  what the patterns amount to:
  \<^verbatim>\<open>([A-Z]+)([A-Z][a-z])\<close> puts an underscore before the last capital of a run of
  capitals that a lower-case letter follows; \<^verbatim>\<open>([a-z\d])([A-Z])\<close> puts one between a
  lower-case letter or digit and a capital; \<^verbatim>\<open>[\s\-]+\<close> turns each run of blanks and
  hyphens into one underscore.
\<close>

definition is_upper :: "char \<Rightarrow> bool" where
  "is_upper c = (c \<in> set ''ABCDEFGHIJKLMNOPQRSTUVWXYZ'')"

definition is_lower :: "char \<Rightarrow> bool" where
  "is_lower c = (c \<in> set ''abcdefghijklmnopqrstuvwxyz'')"

definition is_digit :: "char \<Rightarrow> bool" where
  "is_digit c = (c \<in> set ''0123456789'')"

definition is_blank :: "char \<Rightarrow> bool" where
  "is_blank c =
     (c \<in> set [CHR '' '', CHR 0x09, CHR 0x0A, CHR 0x0B, CHR 0x0C, CHR 0x0D,
               CHR 0x1C, CHR 0x1D, CHR 0x1E, CHR 0x1F, CHR 0x85, CHR 0xA0, CHR ''-''])"

definition latin1_upper :: string where
  "latin1_upper =
     [CHR 0xC0, CHR 0xC1, CHR 0xC2, CHR 0xC3, CHR 0xC4, CHR 0xC5, CHR 0xC6, CHR 0xC7,
      CHR 0xC8, CHR 0xC9, CHR 0xCA, CHR 0xCB, CHR 0xCC, CHR 0xCD, CHR 0xCE, CHR 0xCF,
      CHR 0xD0, CHR 0xD1, CHR 0xD2, CHR 0xD3, CHR 0xD4, CHR 0xD5, CHR 0xD6,
      CHR 0xD8, CHR 0xD9, CHR 0xDA, CHR 0xDB, CHR 0xDC, CHR 0xDD, CHR 0xDE]"

definition latin1_lower :: string where
  "latin1_lower =
     [CHR 0xE0, CHR 0xE1, CHR 0xE2, CHR 0xE3, CHR 0xE4, CHR 0xE5, CHR 0xE6, CHR 0xE7,
      CHR 0xE8, CHR 0xE9, CHR 0xEA, CHR 0xEB, CHR 0xEC, CHR 0xED, CHR 0xEE, CHR 0xEF,
      CHR 0xF0, CHR 0xF1, CHR 0xF2, CHR 0xF3, CHR 0xF4, CHR 0xF5, CHR 0xF6,
      CHR 0xF8, CHR 0xF9, CHR 0xFA, CHR 0xFB, CHR 0xFC, CHR 0xFD, CHR 0xFE]"

definition lower_char :: "char \<Rightarrow> char" where
  "lower_char c =
     (case map_of (zip (''ABCDEFGHIJKLMNOPQRSTUVWXYZ'' @ latin1_upper)
                       (''abcdefghijklmnopqrstuvwxyz'' @ latin1_lower)) c of
        Some l \<Rightarrow> l
      | None \<Rightarrow> c)"

fun sub_acronym :: "string \<Rightarrow> string" where
  "sub_acronym (a # b # c # cs) =
     (if is_upper a \<and> is_upper b \<and> is_lower c then a # CHR ''_'' # sub_acronym (b # c # cs)
      else a # sub_acronym (b # c # cs))"
| "sub_acronym cs = cs"

fun sub_camel :: "string \<Rightarrow> string" where
  "sub_camel (a # b # cs) =
     (if (is_lower a \<or> is_digit a) \<and> is_upper b then a # CHR ''_'' # sub_camel (b # cs)
      else a # sub_camel (b # cs))"
| "sub_camel cs = cs"

fun sub_blank :: "string \<Rightarrow> string" where
  "sub_blank (a # b # cs) =
     (if is_blank a
      then (if is_blank b then sub_blank (b # cs) else CHR ''_'' # sub_blank (b # cs))
      else a # sub_blank (b # cs))"
| "sub_blank [a] = (if is_blank a then [CHR ''_''] else [a])"
| "sub_blank [] = []"

definition strip_underscores :: "string \<Rightarrow> string" where
  "strip_underscores s =
     rev (dropWhile (\<lambda>c. c = CHR ''_'') (rev (dropWhile (\<lambda>c. c = CHR ''_'') s)))"

definition to_snake_case :: "string \<Rightarrow> string" where
  "to_snake_case name =
     strip_underscores (map lower_char (sub_blank (sub_camel (sub_acronym name))))"

text \<open>
  \<^verbatim>\<open>pd.DataFrame(records)\<close> for a list of dicts: the columns are the keys in order of
  first appearance, a key a record lacks gives a missing cell. The annotation promises
  dicts; a list with another kind of element is answered with \<^verbatim>\<open>TypeError\<close> here.
\<close>

definition add_new :: "'a list \<Rightarrow> 'a \<Rightarrow> 'a list" where
  "add_new acc x = (if x \<in> set acc then acc else acc @ [x])"

definition first_occurrences :: "'a list \<Rightarrow> 'a list" where
  "first_occurrences xs = foldl add_new [] xs"

fun items :: "json \<Rightarrow> pydict" where
  "items (JDict d) = d"
| "items v = []"

definition cell :: "json \<Rightarrow> string \<Rightarrow> json" where
  "cell r c = (case map_of (items r) c of Some v \<Rightarrow> v | None \<Rightarrow> JNull)"

definition DataFrame :: "json list \<Rightarrow> error + frame" where
  "DataFrame records =
     (if list_all isinstance_dict records
      then (let cols = first_occurrences (concat (map (\<lambda>r. map fst (items r)) records))
            in Inr \<lparr>columns = cols, rows = map (\<lambda>r. map (cell r) cols) records\<rparr>)
      else Inl TypeError)"

definition empty_frame :: frame where
  "empty_frame = \<lparr>columns = [], rows = []\<rparr>"

text \<open>\<^verbatim>\<open>df.empty\<close>: some axis has length zero.\<close>

definition df_empty :: "frame \<Rightarrow> bool" where
  "df_empty df = (rows df = [] \<or> columns df = [])"

text \<open>\<^verbatim>\<open>_normalize_columns\<close>, with the renaming function as an argument.\<close>

definition normalize_columns :: "(string \<Rightarrow> string) \<Rightarrow> frame \<Rightarrow> frame" where
  "normalize_columns rename df = df\<lparr>columns := map rename (columns df)\<rparr>"

text \<open>
  \<^verbatim>\<open>pd.to_numeric(..., errors="coerce")\<close> on one cell: numbers stay, booleans become
  0 or 1, a string is read by the library's parser \<open>num\<close>, everything else is missing.
\<close>

definition to_numeric :: "(string \<Rightarrow> rat option) \<Rightarrow> json \<Rightarrow> json" where
  "to_numeric num v =
     (case v of
        JNum q \<Rightarrow> JNum q
      | JBool b \<Rightarrow> JNum (if b then 1 else 0)
      | JStr s \<Rightarrow> (case num s of Some q \<Rightarrow> JNum q | None \<Rightarrow> JNull)
      | _ \<Rightarrow> JNull)"

text \<open>
  \<^verbatim>\<open>astype("Int64")\<close> refuses a number that is not integral or lies outside the range
  of a signed 64-bit integer.
\<close>

definition int64_castable :: "json \<Rightarrow> bool" where
  "int64_castable v =
     (case v of
        JNum q \<Rightarrow> of_int \<lfloor>q\<rfloor> = q \<and> - 9223372036854775808 \<le> q \<and> q \<le> 9223372036854775807
      | _ \<Rightarrow> True)"

text \<open>Assigning \<open>f\<close> of a column to that column, and reading a column.\<close>

definition update_column :: "(json \<Rightarrow> json) \<Rightarrow> string \<Rightarrow> frame \<Rightarrow> frame" where
  "update_column f col df =
     df\<lparr>rows := map (\<lambda>r. map (\<lambda>(c, v). if c = col then f v else v) (zip (columns df) r))
                    (rows df)\<rparr>"

definition column_cells :: "string \<Rightarrow> frame \<Rightarrow> json list" where
  "column_cells col df =
     concat (map (\<lambda>r. map snd (filter (\<lambda>(c, v). c = col) (zip (columns df) r))) (rows df))"

text \<open>
  The two loops of \<^verbatim>\<open>_cast_types\<close>. Under a repeated label \<^verbatim>\<open>df[col]\<close> is a frame
  and \<^verbatim>\<open>pd.to_numeric\<close> raises \<^verbatim>\<open>TypeError\<close>.
\<close>

fun cast_year_cols :: "(string \<Rightarrow> rat option) \<Rightarrow> string list \<Rightarrow> frame \<Rightarrow> error + frame" where
  "cast_year_cols num [] df = Inr df"
| "cast_year_cols num (col # cols) df =
     (if count_list (columns df) col \<noteq> 1 then Inl TypeError
      else (let df' = update_column (to_numeric num) col df
            in if list_all int64_castable (column_cells col df')
               then cast_year_cols num cols df'
               else Inl TypeError))"

fun cast_value_cols :: "(string \<Rightarrow> rat option) \<Rightarrow> string list \<Rightarrow> frame \<Rightarrow> error + frame" where
  "cast_value_cols num [] df = Inr df"
| "cast_value_cols num (col # cols) df =
     (if count_list (columns df) col \<noteq> 1 then Inl TypeError
      else cast_value_cols num cols (update_column (to_numeric num) col df))"

definition cast_types :: "(string \<Rightarrow> rat option) \<Rightarrow> frame \<Rightarrow> error + frame" where
  "cast_types num df =
     (let year_cols = filter (str_contains ''year'') (columns df)
      in case cast_year_cols num year_cols df of
           Inl e \<Rightarrow> Inl e
         | Inr df1 \<Rightarrow>
             (let value_cols =
                    filter (\<lambda>c. c \<in> set [''value'', ''val'', ''quantity'', ''amount''])
                      (columns df1)
              in cast_value_cols num value_cols df1))"

text \<open>
  \<^verbatim>\<open>_drop_empty_rows\<close>: \<^verbatim>\<open>dropna(subset=data_cols, how="all")\<close> keeps the rows with
  a cell that is not missing in some column other than \<^verbatim>\<open>fetched_at\<close>.
\<close>

definition data_fields :: "string list \<Rightarrow> json list \<Rightarrow> json list" where
  "data_fields cols r = map snd (filter (\<lambda>(c, v). c \<noteq> ''fetched_at'') (zip cols r))"

definition drop_empty_rows :: "frame \<Rightarrow> frame" where
  "drop_empty_rows df =
     df\<lparr>rows := filter (\<lambda>r. list_ex (\<lambda>v. v \<noteq> JNull) (data_fields (columns df) r)) (rows df)\<rparr>"

text \<open>
  Python's \<^verbatim>\<open>==\<close> on JSON values, as far as it differs from identity of the values:
  \<^verbatim>\<open>True\<close> equals 1 and \<^verbatim>\<open>False\<close> equals 0, lists are equal when their elements
  are, dicts are equal when they hold equal values under the same keys, in any order.
  \<open>canon\<close> maps equal values to one representative.
\<close>

fun canon :: "json \<Rightarrow> json" where
  "canon (JBool b) = JNum (if b then 1 else 0)"
| "canon (JList xs) = JList (map canon xs)"
| "canon (JDict d) = JDict (sort_key fst (map (\<lambda>kv. (fst kv, canon (snd kv))) d))"
| "canon v = v"

definition py_eq :: "json \<Rightarrow> json \<Rightarrow> bool" where
  "py_eq a b = (canon a = canon b)"

text \<open>
  \<^verbatim>\<open>df.drop_duplicates()\<close>, with the equality of cells as an argument: of rows that are
  equal cell by cell the first is kept. An empty frame is returned as it is. A frame
  with a single column is handled by the hash table of that column, which compares
  unhashable cells without raising; otherwise every column is factorized, and
  factorizing a cell that holds a list or a dict raises \<^verbatim>\<open>TypeError\<close>.
\<close>

fun hashable :: "json \<Rightarrow> bool" where
  "hashable (JList xs) = False"
| "hashable (JDict d) = False"
| "hashable v = True"

definition add_unseen :: "('a \<Rightarrow> 'a \<Rightarrow> bool) \<Rightarrow> 'a list \<Rightarrow> 'a \<Rightarrow> 'a list" where
  "add_unseen same acc x = (if list_ex (\<lambda>s. same s x) acc then acc else acc @ [x])"

definition first_by :: "('a \<Rightarrow> 'a \<Rightarrow> bool) \<Rightarrow> 'a list \<Rightarrow> 'a list" where
  "first_by same xs = foldl (add_unseen same) [] xs"

definition drop_duplicates :: "(json \<Rightarrow> json \<Rightarrow> bool) \<Rightarrow> frame \<Rightarrow> error + frame" where
  "drop_duplicates eq df =
     (if df_empty df then Inr df
      else if length (columns df) \<noteq> 1 \<and> \<not> list_all (list_all hashable) (rows df)
      then Inl TypeError
      else Inr (df\<lparr>rows := first_by (list_all2 eq) (rows df)\<rparr>))"

text \<open>\<^verbatim>\<open>df["fetched_at"] = ts\<close>: overwrite the column where it exists, else append it.\<close>

definition set_fetched_at :: "string \<Rightarrow> frame \<Rightarrow> frame" where
  "set_fetched_at ts df =
     (if ''fetched_at'' \<in> set (columns df)
      then update_column (\<lambda>v. JStr ts) ''fetched_at'' df
      else \<lparr>columns = columns df @ [''fetched_at''], rows = map (\<lambda>r. r @ [JStr ts]) (rows df)\<rparr>)"

text \<open>
  What cleaning takes from Python and pandas rather than from this repository: the
  renaming of a name (\<^verbatim>\<open>_to_snake_case\<close> with the Unicode tables of \<^verbatim>\<open>re\<close> and
  \<^verbatim>\<open>str\<close>), the reading of a string as a number, and the equality of two cells.
\<close>

record pylib =
  snake :: "string \<Rightarrow> string"
  parse_number :: "string \<Rightarrow> rat option"
  same_cell :: "json \<Rightarrow> json \<Rightarrow> bool"

text \<open>\<^verbatim>\<open>clean_data\<close>, step by step as in the source.\<close>

definition clean_data_with :: "pylib \<Rightarrow> string \<Rightarrow> json \<Rightarrow> error + frame" where
  "clean_data_with L ts raw =
     (case extract_records raw of
        Inl e \<Rightarrow> Inl e
      | Inr records \<Rightarrow>
          if records = [] then Inr empty_frame
          else (case DataFrame records of
                  Inl e \<Rightarrow> Inl e
                | Inr df0 \<Rightarrow>
                    (case cast_types (parse_number L) (normalize_columns (snake L) df0) of
                       Inl e \<Rightarrow> Inl e
                     | Inr df2 \<Rightarrow>
                         (case drop_duplicates (same_cell L) (drop_empty_rows df2) of
                            Inl e \<Rightarrow> Inl e
                          | Inr df4 \<Rightarrow> Inr (set_fetched_at ts df4)))))"

text \<open>
  The instance on names within \<open>string\<close>: the renaming tabulated above, the parser
  \<open>num\<close>, equality as described by \<open>canon\<close>.
\<close>

definition stdlib :: "(string \<Rightarrow> rat option) \<Rightarrow> pylib" where
  "stdlib num = \<lparr>snake = to_snake_case, parse_number = num, same_cell = py_eq\<rparr>"

definition clean_data :: "(string \<Rightarrow> rat option) \<Rightarrow> string \<Rightarrow> json \<Rightarrow> error + frame" where
  "clean_data num ts raw = clean_data_with (stdlib num) ts raw"

text \<open>
  The column labels a response gives rise to: the field names of its records, renamed.
\<close>

definition field_names :: "(string \<Rightarrow> string) \<Rightarrow> json \<Rightarrow> string list" where
  "field_names rename raw =
     (case extract_records raw of
        Inr records \<Rightarrow> map rename (concat (map (\<lambda>r. map fst (items r)) records))
      | Inl e \<Rightarrow> [])"

text \<open>Every row of a frame has one cell for each column.\<close>

definition rectangular :: "frame \<Rightarrow> bool" where
  "rectangular df = list_all (\<lambda>r. length r = length (columns df)) (rows df)"

text \<open>
  No element of a list is equal, in the sense of \<open>eq\<close>, to an element before it.
\<close>

fun no_repeats :: "('a \<Rightarrow> 'a \<Rightarrow> bool) \<Rightarrow> 'a list \<Rightarrow> bool" where
  "no_repeats eq [] = True"
| "no_repeats eq (x # xs) = (\<not> list_ex (eq x) xs \<and> no_repeats eq xs)"

section \<open>Export (exporter.py)\<close>

text \<open>
  The file system is idealised: creating directories and writing files succeed. What a
  file holds is the frame written and, for Parquet, the codec asked for.
  \<^verbatim>\<open>mkdir(parents=True, exist_ok=True)\<close> adds the directory and its ancestors.
\<close>

definition ancestors :: "path \<Rightarrow> path list" where
  "ancestors p = map (\<lambda>n. take n p) [1 ..< Suc (length p)]"

definition mkdir_parents :: "path \<Rightarrow> world \<Rightarrow> world" where
  "mkdir_parents p w = w\<lparr>dirs := dirs w \<union> set (ancestors p)\<rparr>"

definition write_file :: "path \<Rightarrow> file_content \<Rightarrow> world \<Rightarrow> world" where
  "write_file p content w = w\<lparr>files := (files w)(p \<mapsto> content)\<rparr>"

type_synonym written = "(string \<times> path) list"

definition export ::
  "frame \<Rightarrow> string \<Rightarrow> path \<Rightarrow> bool \<Rightarrow> bool \<Rightarrow> string \<Rightarrow> world \<Rightarrow> (error + written) \<times> world" where
  "export df domain_code output_dir to_csv to_parquet parquet_compression w =
     (if df_empty df then (Inl (ValueError ''nothing to export''), w)
      else
        (let domain_dir = output_dir @ [domain_code];
             w1 = mkdir_parents domain_dir w;
             (written1, w2) =
               (if to_csv
                then ([(''csv'', domain_dir @ [''data.csv''])],
                      write_file (domain_dir @ [''data.csv'']) (CsvFile df) w1)
                else ([], w1));
             (written2, w3) =
               (if to_parquet
                then (written1 @ [(''parquet'', domain_dir @ [''data.parquet''])],
                      write_file (domain_dir @ [''data.parquet''])
                        (ParquetFile df parquet_compression) w2)
                else (written1, w2))
         in (Inr written2, w3)))"

text \<open>
  \<^verbatim>\<open>df.groupby(partition_col)\<close>: one group for each value of the column that is not
  missing. Values that are equal in Python form one group, named by the first of them.
  The groups come sorted: numbers (booleans as 0 and 1) in increasing order, then strings
  in lexicographic order. Grouping by a repeated label raises \<^verbatim>\<open>ValueError\<close>, and
  grouping a column that holds a list or a dict raises \<^verbatim>\<open>TypeError\<close>.
\<close>

fun sort_rank :: "json \<Rightarrow> nat \<times> rat \<times> string" where
  "sort_rank (JNum q) = (0, q, [])"
| "sort_rank (JBool b) = (0, if b then 1 else 0, [])"
| "sort_rank (JStr s) = (1, 0, s)"
| "sort_rank v = (2, 0, [])"

definition group_keys :: "string \<Rightarrow> frame \<Rightarrow> json list" where
  "group_keys col df =
     sort_key sort_rank (first_by py_eq (filter (\<lambda>v. v \<noteq> JNull) (column_cells col df)))"

definition group_rows :: "string \<Rightarrow> json \<Rightarrow> frame \<Rightarrow> frame" where
  "group_rows col v df =
     df\<lparr>rows := filter (\<lambda>r. list_ex (\<lambda>(c, x). c = col \<and> x \<noteq> JNull \<and> py_eq x v)
                                (zip (columns df) r)) (rows df)\<rparr>"

text \<open>The loop over the groups: \<open>written\<close> and the world are carried along.\<close>

fun write_groups ::
  "(json \<Rightarrow> string) \<Rightarrow> frame \<Rightarrow> path \<Rightarrow> string \<Rightarrow> string \<Rightarrow> json list \<Rightarrow> path list \<Rightarrow> world
   \<Rightarrow> path list \<times> world" where
  "write_groups str df base_dir partition_col parquet_compression [] written w = (written, w)"
| "write_groups str df base_dir partition_col parquet_compression (v # vs) written w =
     (let part_dir = base_dir @ [partition_col @ ''='' @ str v];
          w1 = mkdir_parents part_dir w;
          p = part_dir @ [''data.parquet''];
          w2 = write_file p (ParquetFile (group_rows partition_col v df) parquet_compression) w1
      in write_groups str df base_dir partition_col parquet_compression vs (written @ [p]) w2)"

definition export_partitioned ::
  "(json \<Rightarrow> string) \<Rightarrow> frame \<Rightarrow> string \<Rightarrow> string \<Rightarrow> path \<Rightarrow> string \<Rightarrow> world
   \<Rightarrow> (error + path list) \<times> world" where
  "export_partitioned str df domain_code partition_col output_dir parquet_compression w =
     (if df_empty df then (Inl (ValueError ''nothing to export''), w)
      else if partition_col \<notin> set (columns df)
      then (Inl (ValueError ''partition column not found''), w)
      else if count_list (columns df) partition_col \<noteq> 1
      then (Inl (ValueError ''grouper not 1-dimensional''), w)
      else if \<not> list_all hashable (column_cells partition_col df)
      then (Inl TypeError, w)
      else
        (case write_groups str df (output_dir @ [domain_code]) partition_col parquet_compression
                (group_keys partition_col df) [] w of
           (written, w') \<Rightarrow> (Inr written, w')))"

section \<open>Endpoints and orchestration (endpoints.py, pipeline.py, cli.py)\<close>

text \<open>
  \<^verbatim>\<open>get_data(client, domain_code, lang=lang, **filters)\<close>. A filter key that is not a
  keyword parameter of \<^verbatim>\<open>get_data\<close> makes the call itself raise \<^verbatim>\<open>TypeError\<close>. The
  five display parameters are always sent; the eight code filters are sent when given
  (not \<^verbatim>\<open>None\<close>).
\<close>

definition display_defaults :: pydict where
  "display_defaults =
     [(''show_codes'', JBool True), (''show_unit'', JBool True), (''show_flags'', JBool True),
      (''null_values'', JBool False), (''output_type'', JStr ''objects'')]"

definition code_filters :: "string list" where
  "code_filters = [''area'', ''element'', ''item'', ''year'',
                   ''area_cs'', ''element_cs'', ''item_cs'', ''year_cs'']"

definition kwarg :: "pydict \<Rightarrow> string \<Rightarrow> json \<Rightarrow> json" where
  "kwarg filters k dflt = (case map_of filters k of Some v \<Rightarrow> v | None \<Rightarrow> dflt)"

definition get_data_params :: "pydict \<Rightarrow> pydict" where
  "get_data_params filters =
     map (\<lambda>(k, dflt). (k, kwarg filters k dflt)) display_defaults
     @ filter (\<lambda>(k, v). v \<noteq> JNull) (map (\<lambda>k. (k, kwarg filters k JNull)) code_filters)"

definition get_data ::
  "server \<Rightarrow> client \<Rightarrow> string \<Rightarrow> string \<Rightarrow> pydict \<Rightarrow> world \<Rightarrow> (error + json) \<times> world" where
  "get_data srv c domain_code lang filters w =
     (if list_all (\<lambda>(k, v). k \<in> set (map fst display_defaults @ code_filters)) filters
      then get srv c (''/'' @ lang @ ''/data/'' @ domain_code) (get_data_params filters) w
      else (Inl TypeError, w))"

definition get_datasize ::
  "server \<Rightarrow> client \<Rightarrow> json \<Rightarrow> string \<Rightarrow> world \<Rightarrow> (error + json) \<times> world" where
  "get_datasize srv c js lang w = post srv c (''/'' @ lang @ ''/datasize/'') js w"

text \<open>The dict display \<^verbatim>\<open>{"domain_code": domain_code, **filters}\<close>.\<close>

definition size_payload :: "string \<Rightarrow> pydict \<Rightarrow> json" where
  "size_payload domain_code filters =
     JDict ((''domain_code'', kwarg filters ''domain_code'' (JStr domain_code))
            # filter (\<lambda>(k, v). k \<noteq> ''domain_code'') filters)"

text \<open>
  \<^verbatim>\<open>run_pipeline\<close>. The size estimate is best-effort: whatever it returns or raises is
  dropped, only the requests it issued remain. Console output and logging are left out.
\<close>

definition run_pipeline ::
  "env \<Rightarrow> string \<Rightarrow> string \<Rightarrow> path \<Rightarrow> bool \<Rightarrow> bool \<Rightarrow> string \<Rightarrow> pydict \<Rightarrow> bool \<Rightarrow> world
   \<Rightarrow> (error + written) \<times> world" where
  "run_pipeline e domain_code lang output_dir to_csv to_parquet parquet_compression filters
     check_size_first w =
     (case new_client e of
        Inl err \<Rightarrow> (Inl err, w)
      | Inr c0 \<Rightarrow>
          (let c = aenter c0;
               w1 = (if check_size_first
                     then snd (get_datasize (server e) c (size_payload domain_code filters) lang w)
                     else w)
           in case get_data (server e) c domain_code lang filters w1 of
                (Inl err, w2) \<Rightarrow> (Inl err, w2)
              | (Inr raw, w2) \<Rightarrow>
                  if \<not> response_has_data raw then (Inl (ValueError ''No records returned''), w2)
                  else (case clean_data (numeric e) (utcnow e w2) raw of
                          Inl err \<Rightarrow> (Inl err, w2)
                        | Inr df \<Rightarrow>
                            if df_empty df
                            then (Inl (ValueError ''No usable records after cleaning''), w2)
                            else export df domain_code output_dir to_csv to_parquet
                                   parquet_compression w2)))"

text \<open>
  \<^verbatim>\<open>run_pipeline_batch\<close>: the loop over the domain codes, with the result dict and the
  world carried along. \<^verbatim>\<open>except Exception\<close> catches every exception of the model.
\<close>

type_synonym results = "string \<rightharpoonup> written"

fun batch_loop ::
  "env \<Rightarrow> string \<Rightarrow> path \<Rightarrow> bool \<Rightarrow> bool \<Rightarrow> string \<Rightarrow> pydict \<Rightarrow> string list \<Rightarrow> results \<Rightarrow> world
   \<Rightarrow> results \<times> world" where
  "batch_loop e lang output_dir to_csv to_parquet parquet_compression filters [] results w =
     (results, w)"
| "batch_loop e lang output_dir to_csv to_parquet parquet_compression filters (code # codes)
     results w =
     (case run_pipeline e code lang output_dir to_csv to_parquet parquet_compression filters
             True w of
        (Inr written, w') \<Rightarrow>
          batch_loop e lang output_dir to_csv to_parquet parquet_compression filters codes
            (results(code \<mapsto> written)) w'
      | (Inl err, w') \<Rightarrow>
          batch_loop e lang output_dir to_csv to_parquet parquet_compression filters codes
            results w')"

definition run_pipeline_batch ::
  "env \<Rightarrow> string list \<Rightarrow> string \<Rightarrow> path \<Rightarrow> bool \<Rightarrow> bool \<Rightarrow> string \<Rightarrow> pydict \<Rightarrow> world
   \<Rightarrow> results \<times> world" where
  "run_pipeline_batch e domain_codes lang output_dir to_csv to_parquet parquet_compression
     filters w =
     batch_loop e lang output_dir to_csv to_parquet parquet_compression filters domain_codes
       Map.empty w"



text \<open>
  The \<^verbatim>\<open>fetch\<close> command of the CLI, under \<^verbatim>\<open>_handle_errors\<close>: every exception ends
  as \<^verbatim>\<open>click.Abort\<close>. An option that was not given is \<open>None\<close>.
\<close>

definition cli_filters ::
  "string option \<Rightarrow> string option \<Rightarrow> string option \<Rightarrow> string option \<Rightarrow> pydict" where
  "cli_filters area element item year =
     concat (map (\<lambda>(k, v). case v of Some s \<Rightarrow> (if s \<noteq> [] then [(k, JStr s)] else []) | None \<Rightarrow> [])
       [(''area'', area), (''element'', element), (''item'', item), (''year'', year)])"

definition fetch ::
  "env \<Rightarrow> string list \<Rightarrow> string \<Rightarrow> path \<Rightarrow> bool \<Rightarrow> bool \<Rightarrow> string
   \<Rightarrow> string option \<Rightarrow> string option \<Rightarrow> string option \<Rightarrow> string option \<Rightarrow> world
   \<Rightarrow> (error + unit) \<times> world" where
  "fetch e domain_codes lang output no_csv no_parquet compression area element item year w =
     (let filters = cli_filters area element item year;
          to_csv = \<not> no_csv;
          to_parquet = \<not> no_parquet
      in if \<not> to_csv \<and> \<not> to_parquet then (Inl Abort, w)
         else if length domain_codes = 1
         then (case run_pipeline e (hd domain_codes) lang output to_csv to_parquet compression
                      filters True w of
                 (Inl err, w') \<Rightarrow> (Inl Abort, w')
               | (Inr written, w') \<Rightarrow> (Inr (), w'))
         else (case run_pipeline_batch e domain_codes lang output to_csv to_parquet compression
                      filters w of
                 (results, w') \<Rightarrow> (Inr (), w')))"

section \<open>Concrete settings used to exercise the model\<close>

text \<open>
  A parser that knows the two numerals of scenario A, a remote API that answers every
  size request with a count and every data request with one record, except for domain
  \<^verbatim>\<open>TM\<close>, where the list is empty, and an initial world.
\<close>

definition table_numeric :: "string \<Rightarrow> rat option" where
  "table_numeric s =
     (if s = ''2020'' then Some 2020 else if s = ''5.5'' then Some (11 / 2) else None)"

definition demo_server :: server where
  "demo_server n req =
     (case req of
        POST p js \<Rightarrow> Response 200 (JsonBody (JDict [(''count'', JNum 1)]))
      | GET p params \<Rightarrow>
          if p = ''/en/data/TM'' then Response 200 (JsonBody (JList []))
          else Response 200 (JsonBody (JDict [(''data'', JList [JDict [(''Year'', JStr ''2020'')]])])))"

definition demo_env :: env where
  "demo_env = \<lparr>server = demo_server, API_TOKEN = ''t'', BASE_URL = ''https://api/'',
               token_expired = False, utcnow = (\<lambda>w. ''2024-01-01T00:00:00+00:00''),
               numeric = table_numeric, py_str = (\<lambda>v. ''v'')\<rparr>"

definition world0 :: world where
  "world0 = \<lparr>sent = 0, attempts = 0, dirs = {}, files = Map.empty\<rparr>"

definition scenario_A :: json where
  "scenario_A =
     JDict [(''data'', JList [JDict [(''Year'', JStr ''2020''), (''Value'', JStr ''5.5'')],
                               JDict [(''Year'', JStr ''x''), (''Value'', JNull)]])]"

section \<open>Unfolding rules for evaluating the model\<close>

lemmas client_defs =
  new_client_def aenter_def get_datasize_def get_data_def get_def post_def send_def
  request_attempt_def raise_for_status_def retry_on_transient_def payload_def
  size_payload_def get_data_params_def display_defaults_def code_filters_def kwarg_def
  rstrip_slash_def

lemmas snake_defs =
  to_snake_case_def strip_underscores_def lower_char_def is_upper_def is_lower_def
  is_digit_def is_blank_def latin1_upper_def latin1_lower_def

lemmas clean_defs =
  clean_data_def clean_data_with_def stdlib_def py_eq_def first_by_def add_unseen_def
  DataFrame_def first_occurrences_def add_new_def cell_def empty_frame_def
  normalize_columns_def cast_types_def update_column_def column_cells_def to_numeric_def
  int64_castable_def drop_empty_rows_def data_fields_def drop_duplicates_def
  set_fetched_at_def df_empty_def wrapper_keys_def

lemmas export_defs = export_def mkdir_parents_def write_file_def ancestors_def

section \<open>Properties of extraction and of the presence check\<close>

lemma extract_loop_find:
  "extract_loop keys d = map_option (list_under d) (find (holds_list d) keys)"
  by (induction keys) (auto simp: holds_list_def list_under_def split: option.splits json.splits)

lemma has_data_loop_extract_loop:
  "has_data_loop keys d = map_option (\<lambda>xs. length xs > 0) (extract_loop keys d)"
  by (induction keys) (auto split: option.splits json.splits)

lemma map_of_size: "map_of d k = Some v \<Longrightarrow> size v < size (JDict d)"
  by (induction d) (auto split: if_splits)

lemma list_not_own_element: "xs \<noteq> [JList xs]"
proof
  assume "xs = [JList xs]"
  then have "size (JList xs) = size (JList [JList xs])" by simp
  then show False by simp
qed

lemma extract_loop_size:
  "extract_loop keys d = Some xs \<Longrightarrow> size (JList xs) < size (JDict d)"
  by (induction keys) (auto split: option.splits json.splits dest: map_of_size)

lemma extract_loop_not_whole: "extract_loop keys d = Some xs \<Longrightarrow> xs \<noteq> [JDict d]"
  using extract_loop_size [of keys d xs] by auto

text \<open>
  C6. Envelope extraction never raises on a list or a mapping and returns what the
  specification describes: a list unchanged; for a mapping the list under the first of
  the keys data, Data, items, results whose value is a list; failing that the whole
  mapping as a single record when it is non-empty, and the empty sequence when it is
  empty. Being a HOL function, it is deterministic and total.
\<close>

theorem extract_records_total:
  "extract_records (JList xs) = Inr xs
   \<and> extraction_spec (JList xs) = xs
   \<and> extract_records (JDict d) = Inr (extraction_spec (JDict d))"
  by (simp add: extraction_spec_def wrapper_keys_def extract_loop_find split: option.splits)

theorem extract_records_total_witness:
  "extract_records (JDict [(''items'', JList [JNull]), (''Data'', JList [])]) = Inr []
   \<and> extract_records (JDict [(''data'', JNum 1), (''items'', JList [JNull])]) = Inr [JNull]
   \<and> extract_records (JDict [(''count'', JNum 1)]) = Inr [JDict [(''count'', JNum 1)]]
   \<and> extract_records (JDict []) = Inr []"
  using extract_records_total [of "[]" "[(''items'', JList [JNull]), (''Data'', JList [])]"]
    extract_records_total [of "[]" "[(''data'', JNum 1), (''items'', JList [JNull])]"]
    extract_records_total [of "[]" "[(''count'', JNum 1)]"]
    extract_records_total [of "[]" "[]"]
  by (simp add: extraction_spec_def holds_list_def list_under_def)

text \<open>
  C2, as stated, fails: on a non-empty mapping without a list under a wrapper key the
  presence check answers false (its comment calls such a response an error or an empty
  envelope) while extraction wraps the whole mapping into one record.
\<close>

theorem has_data_iff_extract_counterexample:
  "response_has_data (JDict [(''status'', JNum 200)]) = False
   \<and> extract_records (JDict [(''status'', JNum 200)]) = Inr [JDict [(''status'', JNum 200)]]"
  by (simp add: wrapper_keys_def)

text \<open>
  C2, amended. For every response the presence check is true exactly when extraction
  returns a non-empty sequence that is not the single-record wrapping of the whole
  response; both scan the keys data, Data, items, results in the same order.
\<close>

theorem has_data_iff_extract_unwrapped:
  "response_has_data raw \<longleftrightarrow>
     (\<exists>xs. extract_records raw = Inr xs \<and> xs \<noteq> [] \<and> xs \<noteq> [raw])"
proof (cases raw)
  case (JList xs)
  then show ?thesis using list_not_own_element [of xs] by auto
next
  case (JDict d)
  then show ?thesis
    by (auto simp: has_data_loop_extract_loop split: option.splits dest: extract_loop_not_whole)
qed auto

theorem has_data_iff_extract_unwrapped_witness:
  "response_has_data (JDict [(''Data'', JList [JDict [(''Year'', JStr ''2020'')]])])
   \<and> extract_records (JDict [(''Data'', JList [JDict [(''Year'', JStr ''2020'')]])])
       = Inr [JDict [(''Year'', JStr ''2020'')]]"
  using has_data_iff_extract_unwrapped [of "JDict [(''Data'', JList [JDict [(''Year'', JStr ''2020'')]])]"]
  by (simp add: wrapper_keys_def)
section \<open>Properties of the client\<close>

lemma retry_stop:
  "fn w = (out, w') \<Longrightarrow> \<not> retry_on_transient out \<or> n \<ge> 3 \<Longrightarrow> tenacity_retry n fn w = (out, w')"
  by (subst tenacity_retry.simps) auto

lemma retry_again:
  "fn w = (out, w') \<Longrightarrow> retry_on_transient out \<Longrightarrow> n < 3 \<Longrightarrow>
   tenacity_retry n fn w = tenacity_retry (Suc n) fn w'"
  by (subst tenacity_retry.simps) auto

lemma transient_retried:
  "transient ex \<Longrightarrow> retry_on_transient (Inl (transient_error ex) :: error + json)"
  by (cases ex) (auto simp: retry_on_transient_def)

lemma attempt_transient:
  assumes "opened c" and "srv (sent w) req = ex" and "transient ex"
  shows "request_attempt srv c req w =
           (Inl (transient_error ex), w\<lparr>attempts := Suc (attempts w), sent := Suc (sent w)\<rparr>)"
  using assms
  by (cases ex) (auto simp: request_attempt_def raise_for_status_def Let_def)

lemma attempt_success:
  assumes "opened c" and "srv (sent w) req = Response st b" and "200 \<le> st" and "st \<le> 299"
  shows "request_attempt srv c req w = (Inr (payload st b), w\<lparr>attempts := Suc (attempts w), sent := Suc (sent w)\<rparr>)"
    and "\<not> retry_on_transient (Inr (payload st b) :: error + json)"
  using assms
  by (auto simp: request_attempt_def raise_for_status_def retry_on_transient_def Let_def)

lemma attempt_counts:
  "request_attempt srv c req w = (out, w') \<Longrightarrow> attempts w' = Suc (attempts w)"
  by (auto simp: request_attempt_def Let_def split: if_splits exchange.splits sum.splits)

lemma tenacity_bound:
  assumes step: "\<And>w out w'. fn w = (out, w') \<Longrightarrow> attempts w' = Suc (attempts w)"
  shows "n \<le> 3 \<Longrightarrow> tenacity_retry n fn w = (out, w') \<Longrightarrow>
         attempts w' + n \<le> attempts w + 4 \<and> attempts w < attempts w'"
proof (induction "3 - n" arbitrary: n w)
  case 0
  obtain o1 w1 where f: "fn w = (o1, w1)" by (cases "fn w")
  from 0 have "tenacity_retry n fn w = (o1, w1)"
    using f by (intro retry_stop) auto
  then show ?case using 0 step [OF f] by auto
next
  case (Suc k)
  obtain o1 w1 where f: "fn w = (o1, w1)" by (cases "fn w")
  note a = step [OF f]
  show ?case
  proof (cases "retry_on_transient o1")
    case True
    then have "tenacity_retry (Suc n) fn w1 = (out, w')"
      using Suc.prems Suc.hyps(2) f retry_again [of fn w o1 w1 n] by simp
    moreover have "k = 3 - Suc n" "Suc n \<le> 3" using Suc.hyps(2) by auto
    ultimately have "attempts w' + Suc n \<le> attempts w1 + 4 \<and> attempts w1 < attempts w'"
      using Suc.hyps(1) by blast
    with a show ?thesis by simp
  next
    case False
    then have "tenacity_retry n fn w = (o1, w1)"
      using f by (intro retry_stop) auto
    then show ?thesis using Suc.prems a by auto
  qed
qed

lemma send_all_transient: 
  assumes o: "opened c" and t0: "transient (srv (sent w) req)"
    and t1: "transient (srv (sent w + 1) req)" and t2: "transient (srv (sent w + 2) req)"
  shows "send srv c req w = (Inl (transient_error (srv (sent w + 2) req)), w\<lparr>attempts := attempts w + 3, sent := sent w + 3\<rparr>)"
proof -
  define w1 where "w1 = w\<lparr>attempts := Suc (attempts w), sent := Suc (sent w)\<rparr>"
  define w2 where "w2 = w1\<lparr>attempts := Suc (attempts w1), sent := Suc (sent w1)\<rparr>"
  define w3 where "w3 = w2\<lparr>attempts := Suc (attempts w2), sent := Suc (sent w2)\<rparr>"
  define e0 where "e0 = srv (sent w) req"
  define e1 where "e1 = srv (sent w + 1) req"
  define e2 where "e2 = srv (sent w + 2) req"
  let ?f = "request_attempt srv c req"
  have s1: "srv (sent w1) req = e1" and s2: "srv (sent w2) req = e2"
    by (simp_all add: w1_def w2_def e1_def e2_def)
  have a0: "?f w = (Inl (transient_error e0), w1)"
    unfolding w1_def using o e0_def [symmetric] t0 [folded e0_def] by (rule attempt_transient)
  have a1: "?f w1 = (Inl (transient_error e1), w2)"
    unfolding w2_def using o s1 t1 [folded e1_def] by (rule attempt_transient)
  have a2: "?f w2 = (Inl (transient_error e2), w3)"
    unfolding w3_def using o s2 t2 [folded e2_def] by (rule attempt_transient)
  have "tenacity_retry 1 ?f w = tenacity_retry (Suc 1) ?f w1"
    using a0 transient_retried [OF t0 [folded e0_def]] by (rule retry_again) simp
  also have "\<dots> = tenacity_retry (Suc (Suc 1)) ?f w2"
    using a1 transient_retried [OF t1 [folded e1_def]] by (rule retry_again) simp
  also have "\<dots> = (Inl (transient_error e2), w3)"
    using a2 by (rule retry_stop) simp
  finally show ?thesis by (simp add: send_def e2_def w3_def w2_def w1_def)
qed

lemma send_third_succeeds: 
  assumes o: "opened c" and t0: "transient (srv (sent w) req)"
    and t1: "transient (srv (sent w + 1) req)" and t2: "srv (sent w + 2) req = Response st b"
    and st: "200 \<le> st" "st \<le> 299"
  shows "send srv c req w = (Inr (payload st b), w\<lparr>attempts := attempts w + 3, sent := sent w + 3\<rparr>)"
proof -
  define w1 where "w1 = w\<lparr>attempts := Suc (attempts w), sent := Suc (sent w)\<rparr>"
  define w2 where "w2 = w1\<lparr>attempts := Suc (attempts w1), sent := Suc (sent w1)\<rparr>"
  define w3 where "w3 = w2\<lparr>attempts := Suc (attempts w2), sent := Suc (sent w2)\<rparr>"
  define e0 where "e0 = srv (sent w) req"
  define e1 where "e1 = srv (sent w + 1) req"
  let ?f = "request_attempt srv c req"
  have s1: "srv (sent w1) req = e1" and s2: "srv (sent w2) req = Response st b"
    using t2 by (simp_all add: w1_def w2_def e1_def)
  have a0: "?f w = (Inl (transient_error e0), w1)"
    unfolding w1_def using o e0_def [symmetric] t0 [folded e0_def] by (rule attempt_transient)
  have a1: "?f w1 = (Inl (transient_error e1), w2)"
    unfolding w2_def using o s1 t1 [folded e1_def] by (rule attempt_transient)
  have a2: "?f w2 = (Inr (payload st b), w3)"
    unfolding w3_def using o s2 st by (rule attempt_success(1))
  have "tenacity_retry 1 ?f w = tenacity_retry (Suc 1) ?f w1"
    using a0 transient_retried [OF t0 [folded e0_def]] by (rule retry_again) simp
  also have "\<dots> = tenacity_retry (Suc (Suc 1)) ?f w2"
    using a1 transient_retried [OF t1 [folded e1_def]] by (rule retry_again) simp
  also have "\<dots> = (Inr (payload st b), w3)"
    using a2 by (rule retry_stop) (simp add: retry_on_transient_def)
  finally show ?thesis by (simp add: send_def w3_def w2_def w1_def)
qed

lemma send_attempts_bound:
  "send srv c req w = (out, w') \<Longrightarrow> attempts w' \<le> attempts w + 3 \<and> attempts w < attempts w'"
  using tenacity_bound [of "request_attempt srv c req" 1 w out w'] attempt_counts [of srv c req]
  by (simp add: send_def)

text \<open>
  C4. For every call through an open client (\<open>get\<close> and \<open>post\<close> are \<open>send\<close> on a
  \<open>GET\<close> and a \<open>POST\<close> request): when the first three exchanges are transient
  (transport failure or status of 500 and above), the call makes exactly three attempts
  and raises the exception of the third, unchanged; when two transient exchanges are
  followed by a 2xx response, the call returns that response's payload after exactly
  three attempts; and no call makes more than three attempts.
\<close>

theorem send_retries_transient:
  assumes "opened c"
  shows "(transient (srv (sent w) req) \<and> transient (srv (sent w + 1) req)
            \<and> transient (srv (sent w + 2) req) \<longrightarrow>
          send srv c req w =
            (Inl (transient_error (srv (sent w + 2) req)),
             w\<lparr>attempts := attempts w + 3, sent := sent w + 3\<rparr>))
       \<and> (transient (srv (sent w) req) \<and> transient (srv (sent w + 1) req)
            \<and> srv (sent w + 2) req = Response st b \<and> 200 \<le> st \<and> st \<le> 299 \<longrightarrow>
          send srv c req w =
            (Inr (payload st b), w\<lparr>attempts := attempts w + 3, sent := sent w + 3\<rparr>))
       \<and> attempts (snd (send srv c req w)) \<le> attempts w + 3"
proof (intro conjI impI)
  assume "transient (srv (sent w) req) \<and> transient (srv (sent w + 1) req)
            \<and> transient (srv (sent w + 2) req)"
  then show "send srv c req w =
            (Inl (transient_error (srv (sent w + 2) req)),
             w\<lparr>attempts := attempts w + 3, sent := sent w + 3\<rparr>)"
    using assms send_all_transient by blast
next
  assume "transient (srv (sent w) req) \<and> transient (srv (sent w + 1) req)
            \<and> srv (sent w + 2) req = Response st b \<and> 200 \<le> st \<and> st \<le> 299"
  then show "send srv c req w =
            (Inr (payload st b), w\<lparr>attempts := attempts w + 3, sent := sent w + 3\<rparr>)"
    using assms send_third_succeeds by blast
next
  show "attempts (snd (send srv c req w)) \<le> attempts w + 3"
    using send_attempts_bound [of srv c req w "fst (send srv c req w)" "snd (send srv c req w)"]
    by simp
qed

theorem send_retries_transient_witness:
  "get (\<lambda>n req. if n < 2 then ConnFailure else Response 200 (JsonBody (JList [])))
     \<lparr>token = ''t'', base_url = ''u'', opened = True\<rparr> ''/ping'' [] world0
     = (Inr (JList []), world0\<lparr>attempts := 3, sent := 3\<rparr>)
   \<and> post (\<lambda>n req. Response 503 NoContent)
       \<lparr>token = ''t'', base_url = ''u'', opened = True\<rparr> ''/en/datasize/'' JNull world0
     = (Inl (HTTPStatusError 503), world0\<lparr>attempts := 3, sent := 3\<rparr>)"
  using
    send_retries_transient [of "\<lparr>token = ''t'', base_url = ''u'', opened = True\<rparr>"
      "\<lambda>n req. if n < 2 then ConnFailure else Response 200 (JsonBody (JList []))" world0
      "GET ''/ping'' []" 200 "JsonBody (JList [])"]
    send_retries_transient [of "\<lparr>token = ''t'', base_url = ''u'', opened = True\<rparr>"
      "\<lambda>n req. Response 503 NoContent" world0 "POST ''/en/datasize/'' JNull" 200 NoContent]
  by (simp add: world0_def payload_def get_def post_def)

text \<open>
  C5. For every call through an open client whose first exchange is a response: status
  401 and status 403 raise the authentication error, status 429 raises the rate-limit
  error, in each case after exactly one attempt and one request; the two error classes
  are different.
\<close>

theorem auth_and_rate_limit_not_retried:
  assumes "opened c" and "srv (sent w) req = Response st b"
  shows "(st = 401 \<longrightarrow>
           send srv c req w = (Inl (FAOSTATAuthError ''401 Unauthorized''),
                               w\<lparr>attempts := attempts w + 1, sent := sent w + 1\<rparr>))
       \<and> (st = 403 \<longrightarrow>
           send srv c req w = (Inl (FAOSTATAuthError ''403 Forbidden''),
                               w\<lparr>attempts := attempts w + 1, sent := sent w + 1\<rparr>))
       \<and> (st = 429 \<longrightarrow>
           send srv c req w = (Inl (FAOSTATRateLimitError ''429 Rate limit exceeded''),
                               w\<lparr>attempts := attempts w + 1, sent := sent w + 1\<rparr>))
       \<and> FAOSTATRateLimitError m \<noteq> FAOSTATAuthError m'"
  using assms
  by (auto simp: send_def request_attempt_def raise_for_status_def Let_def retry_on_transient_def
      intro!: retry_stop)

theorem auth_and_rate_limit_not_retried_witness:
  "get (\<lambda>n req. Response 401 NoContent)
     \<lparr>token = ''t'', base_url = ''u'', opened = True\<rparr> ''/ping'' [] world0
     = (Inl (FAOSTATAuthError ''401 Unauthorized''), world0\<lparr>attempts := 1, sent := 1\<rparr>)
   \<and> get (\<lambda>n req. Response 403 (TextBody ''no''))
     \<lparr>token = ''t'', base_url = ''u'', opened = True\<rparr> ''/ping'' [] world0
     = (Inl (FAOSTATAuthError ''403 Forbidden''), world0\<lparr>attempts := 1, sent := 1\<rparr>)
   \<and> post (\<lambda>n req. Response 429 NoContent)
     \<lparr>token = ''t'', base_url = ''u'', opened = True\<rparr> ''/en/datasize/'' JNull world0
     = (Inl (FAOSTATRateLimitError ''429 Rate limit exceeded''), world0\<lparr>attempts := 1, sent := 1\<rparr>)"
  using
    auth_and_rate_limit_not_retried [of "\<lparr>token = ''t'', base_url = ''u'', opened = True\<rparr>"
      "\<lambda>n req. Response 401 NoContent" world0 "GET ''/ping'' []" 401 NoContent]
    auth_and_rate_limit_not_retried [of "\<lparr>token = ''t'', base_url = ''u'', opened = True\<rparr>"
      "\<lambda>n req. Response 403 (TextBody ''no'')" world0 "GET ''/ping'' []" 403 "TextBody ''no''"]
    auth_and_rate_limit_not_retried [of "\<lparr>token = ''t'', base_url = ''u'', opened = True\<rparr>"
      "\<lambda>n req. Response 429 NoContent" world0 "POST ''/en/datasize/'' JNull" 429 NoContent]
  by (simp add: world0_def get_def post_def)

section \<open>Properties of export\<close>

text \<open>
  C8. \<open>export\<close> raises the "nothing to export" \<^verbatim>\<open>ValueError\<close> whenever the frame
  has no rows, and \<open>export_partitioned\<close> raises a \<^verbatim>\<open>ValueError\<close> whenever the frame is
  empty or the partition column is not among its columns; in each case the world, and so
  the file system, is left as it was.
\<close>

theorem export_rejects_empty:
  "(rows df = [] \<longrightarrow>
      export df domain_code output_dir to_csv to_parquet codec w
        = (Inl (ValueError ''nothing to export''), w))
   \<and> (df_empty df \<or> partition_col \<notin> set (columns df) \<longrightarrow>
        (\<exists>msg. export_partitioned str df domain_code partition_col output_dir codec w
                 = (Inl (ValueError msg), w)))"
  by (auto simp: export_def export_partitioned_def df_empty_def)

theorem export_rejects_empty_witness:
  "export \<lparr>columns = [''year''], rows = []\<rparr> ''QCL'' [''output''] True True ''snappy'' world0
     = (Inl (ValueError ''nothing to export''), world0)
   \<and> export_partitioned (\<lambda>v. ''v'') \<lparr>columns = [''value''], rows = [[JNum 1]]\<rparr> ''QCL'' ''year''
       [''output''] ''snappy'' world0
     = (Inl (ValueError ''partition column not found''), world0)"
  using
    export_rejects_empty [of "\<lparr>columns = [''year''], rows = []\<rparr>" "''QCL''" "[''output'']"
      True True "''snappy''" world0 "''year''" "\<lambda>v. ''v''"]
    export_rejects_empty [of "\<lparr>columns = [''value''], rows = [[JNum 1]]\<rparr>" "''QCL''"
      "[''output'']" True True "''snappy''" world0 "''year''" "\<lambda>v. ''v''"]
  by (simp add: export_partitioned_def df_empty_def)

lemma self_in_ancestors: "p \<noteq> [] \<Longrightarrow> p \<in> set (ancestors p)"
proof -
  assume "p \<noteq> []"
  then have "length p \<in> set [1 ..< Suc (length p)]" by (cases p) auto
  then have "take (length p) p \<in> (\<lambda>n. take n p) ` set [1 ..< Suc (length p)]" by (rule imageI)
  then show ?thesis by (simp add: ancestors_def)
qed

text \<open>
  C10. \<open>export\<close> of a frame that is not empty, with neither format requested, raises
  nothing: it creates the directory of the domain under the output directory, leaves
  every file as it was and returns the empty mapping.
\<close>

theorem export_without_formats:
  assumes "\<not> df_empty df"
  shows "export df domain_code output_dir False False codec w
           = (Inr [], w\<lparr>dirs := dirs w \<union> set (ancestors (output_dir @ [domain_code]))\<rparr>)
       \<and> output_dir @ [domain_code] \<in> set (ancestors (output_dir @ [domain_code]))"
  using assms self_in_ancestors [of "output_dir @ [domain_code]"]
  by (simp add: export_def mkdir_parents_def)

theorem export_without_formats_witness:
  "export \<lparr>columns = [''year''], rows = [[JNum 2020]]\<rparr> ''QCL'' [''output''] False False
     ''snappy'' world0
     = (Inr [], world0\<lparr>dirs := {[''output''], [''output'', ''QCL'']}\<rparr>)"
  using export_without_formats [of "\<lparr>columns = [''year''], rows = [[JNum 2020]]\<rparr>" "''QCL''"
      "[''output'']" "''snappy''" world0]
  by (simp add: df_empty_def ancestors_def world0_def upt_rec)

section \<open>Properties of cleaning\<close>

lemma snake_Year: "to_snake_case ''Year'' = ''year''"
  by (simp add: snake_defs)

lemma snake_Value: "to_snake_case ''Value'' = ''value''"
  by (simp add: snake_defs)

lemma snake_a: "to_snake_case ''a'' = ''a''" "to_snake_case ''fetched_at'' = ''fetched_at''"
  by (simp_all add: snake_defs)

lemma str_contains_year: "str_contains ''year'' ''year''" "\<not> str_contains ''year'' ''value''"
  "\<not> str_contains ''year'' ''a''" "\<not> str_contains ''year'' ''fetched_at''"
  by simp_all

text \<open>
  C1, as stated, fails. In scenario A the year \<^verbatim>\<open>"x"\<close> of the second record is
  coerced to a missing value before empty rows are dropped, so that row is missing in
  every data column and is dropped: one row is left, not two.
\<close>

theorem scenario_A_counterexample:
  "clean_data table_numeric ''2024-01-01T00:00:00+00:00'' scenario_A
     = Inr \<lparr>columns = [''year'', ''value'', ''fetched_at''],
            rows = [[JNum 2020, JNum (11 / 2), JStr ''2024-01-01T00:00:00+00:00'']]\<rparr>"
  by (simp add: scenario_A_def clean_defs snake_Year snake_Value table_numeric_def)

text \<open>
  C1, amended. With any numeric parser that reads \<^verbatim>\<open>"2020"\<close> as 2020 and
  \<^verbatim>\<open>"5.5"\<close> as 5.5 and rejects \<^verbatim>\<open>"x"\<close>, cleaning the raw response of scenario A
  gives a frame of exactly one row, with column year = [2020], column value = [5.5] and
  one \<^verbatim>\<open>fetched_at\<close> column holding the timestamp.
\<close>

theorem scenario_A_one_row:
  assumes "num ''2020'' = Some 2020" and "num ''5.5'' = Some (11 / 2)" and "num ''x'' = None"
  shows "clean_data num ts scenario_A
           = Inr \<lparr>columns = [''year'', ''value'', ''fetched_at''],
                  rows = [[JNum 2020, JNum (11 / 2), JStr ts]]\<rparr>"
  using assms
  by (simp add: scenario_A_def clean_defs snake_Year snake_Value)

theorem scenario_A_one_row_witness:
  "table_numeric ''2020'' = Some 2020 \<and> table_numeric ''5.5'' = Some (11 / 2)
   \<and> table_numeric ''x'' = None
   \<and> clean_data table_numeric ''2025-06-30T12:00:00+00:00'' scenario_A
       = Inr \<lparr>columns = [''year'', ''value'', ''fetched_at''],
              rows = [[JNum 2020, JNum (11 / 2), JStr ''2025-06-30T12:00:00+00:00'']]\<rparr>"
  using scenario_A_one_row [of table_numeric "''2025-06-30T12:00:00+00:00''"]
  by (simp add: table_numeric_def)

lemma foldl_add_new_set: "set (foldl add_new acc xs) = set acc \<union> set xs"
  by (induction xs arbitrary: acc) (auto simp: add_new_def)

lemma foldl_add_new_distinct: "distinct acc \<Longrightarrow> distinct (foldl add_new acc xs)"
  by (induction xs arbitrary: acc) (auto simp: add_new_def)

lemma first_occurrences_set: "set (first_occurrences xs) = set xs"
  by (simp add: first_occurrences_def foldl_add_new_set)

lemma first_occurrences_distinct: "distinct (first_occurrences xs)"
  by (simp add: first_occurrences_def foldl_add_new_distinct)

lemma DataFrame_shape:
  assumes "DataFrame records = Inr df"
  shows "rectangular df"
    and "set (columns df) = set (concat (map (\<lambda>r. map fst (items r)) records))"
  using assms
  by (force simp: DataFrame_def rectangular_def Let_def list_all_iff first_occurrences_set
      split: if_splits)+

lemma update_column_shape:
  "rectangular df \<Longrightarrow> rectangular (update_column f col df)"
  "columns (update_column f col df) = columns df"
  by (auto simp: update_column_def rectangular_def list_all_iff)

lemma cast_year_cols_shape:
  "cast_year_cols num cols df = Inr df' \<Longrightarrow> rectangular df \<Longrightarrow>
   rectangular df' \<and> columns df' = columns df"
proof (induction cols arbitrary: df)
  case Nil
  then show ?case by simp
next
  case (Cons col cols)
  then show ?case
    using update_column_shape [where df = df and f = "to_numeric num" and col = col]
    by (fastforce simp: Let_def split: if_splits)
qed

lemma cast_value_cols_shape:
  "cast_value_cols num cols df = Inr df' \<Longrightarrow> rectangular df \<Longrightarrow>
   rectangular df' \<and> columns df' = columns df"
proof (induction cols arbitrary: df)
  case Nil
  then show ?case by simp
next
  case (Cons col cols)
  then show ?case
    using update_column_shape [where df = df and f = "to_numeric num" and col = col]
    by (fastforce simp: Let_def split: if_splits)
qed

lemma cast_types_shape:
  assumes "cast_types num df = Inr df'" and "rectangular df"
  shows "rectangular df' \<and> columns df' = columns df"
proof -
  from assms(1) obtain df1 where
    y: "cast_year_cols num (filter (str_contains ''year'') (columns df)) df = Inr df1" and
    v: "cast_value_cols num
          (filter (\<lambda>c. c \<in> set [''value'', ''val'', ''quantity'', ''amount'']) (columns df1)) df1
        = Inr df'"
    by (auto simp: cast_types_def Let_def split: sum.splits)
  from cast_year_cols_shape [OF y assms(2)] cast_value_cols_shape [OF v] show ?thesis by simp
qed

lemma data_fields_append:
  "length r = length cols \<Longrightarrow> data_fields (cols @ [''fetched_at'']) (r @ [v]) = data_fields cols r"
  by (simp add: data_fields_def)

lemma zip_update:
  "zip cols (map (\<lambda>(c, v). g c v) (zip cols r)) = map (\<lambda>(c, v). (c, g c v)) (zip cols r)"
  by (induction cols arbitrary: r) (auto split: list.splits simp: zip_Cons1)

lemma data_fields_update:
  "data_fields cols (map (\<lambda>(c, v). if c = ''fetched_at'' then f v else v) (zip cols r))
     = data_fields cols r"
proof -
  have "zip cols (map (\<lambda>(c, v). if c = ''fetched_at'' then f v else v) (zip cols r))
          = map (\<lambda>(c, v). (c, if c = ''fetched_at'' then f v else v)) (zip cols r)"
    by (rule zip_update)
  then show ?thesis
    unfolding data_fields_def
    by (simp add: filter_map comp_def case_prod_unfold)
qed

lemma data_fields_all:
  "''fetched_at'' \<notin> set cols \<Longrightarrow> length r = length cols \<Longrightarrow> data_fields cols r = r"
proof (induction cols arbitrary: r)
  case Nil
  then show ?case by (simp add: data_fields_def)
next
  case (Cons c cols)
  then show ?case by (cases r) (auto simp: data_fields_def)
qed

lemma drop_empty_rows_shape:
  "columns (drop_empty_rows df) = columns df"
  "rectangular df \<Longrightarrow> rectangular (drop_empty_rows df)"
  "r \<in> set (rows (drop_empty_rows df)) \<Longrightarrow> list_ex (\<lambda>v. v \<noteq> JNull) (data_fields (columns df) r)"
  by (auto simp: drop_empty_rows_def rectangular_def list_all_iff)

lemma drop_empty_rows_no_columns: "columns df = [] \<Longrightarrow> rows (drop_empty_rows df) = []"
  by (simp add: drop_empty_rows_def data_fields_def)

lemma foldl_add_unseen_subset: "set (foldl (add_unseen R) acc rs) \<subseteq> set acc \<union> set rs"
proof (induction rs arbitrary: acc)
  case Nil
  show ?case by simp
next
  case (Cons r rs)
  have "set (add_unseen R acc r) \<subseteq> set acc \<union> {r}"
    by (auto simp: add_unseen_def)
  with Cons [of "add_unseen R acc r"] show ?case by auto
qed

lemma no_repeats_snoc:
  "no_repeats R (xs @ [x]) \<longleftrightarrow> no_repeats R xs \<and> \<not> list_ex (\<lambda>s. R s x) xs"
  by (induction xs) (auto simp: list_ex_iff)

lemma foldl_add_unseen_no_repeats:
  "no_repeats R acc \<Longrightarrow> no_repeats R (foldl (add_unseen R) acc rs)"
  by (induction rs arbitrary: acc) (simp_all add: add_unseen_def no_repeats_snoc)

lemma no_repeats_distinct: "(\<And>x. R x x) \<Longrightarrow> no_repeats R xs \<Longrightarrow> distinct xs"
  by (induction xs) (auto simp: list_ex_iff)

lemma drop_duplicates_shape:
  assumes "drop_duplicates eq df = Inr df'"
  shows "columns df' = columns df" and "set (rows df') \<subseteq> set (rows df)"
    and "rows df = [] \<or> columns df \<noteq> [] \<Longrightarrow> no_repeats (list_all2 eq) (rows df')"
proof -
  show "columns df' = columns df"
    using assms by (auto simp: drop_duplicates_def split: if_splits)
  show "set (rows df') \<subseteq> set (rows df)"
    using assms foldl_add_unseen_subset [of "list_all2 eq" "[]" "rows df"]
    by (auto simp: drop_duplicates_def first_by_def split: if_splits)
  show "no_repeats (list_all2 eq) (rows df')" if "rows df = [] \<or> columns df \<noteq> []"
    using assms that foldl_add_unseen_no_repeats [of "list_all2 eq" "[]" "rows df"]
    by (auto simp: drop_duplicates_def first_by_def df_empty_def split: if_splits)
qed

lemma set_fetched_at_data_fields:
  assumes "rectangular df"
  shows "map (data_fields (columns (set_fetched_at ts df))) (rows (set_fetched_at ts df))
           = map (data_fields (columns df)) (rows df)"
proof (cases "''fetched_at'' \<in> set (columns df)")
  case True
  then show ?thesis
    by (simp add: set_fetched_at_def update_column_def data_fields_update comp_def)
next
  case False
  then show ?thesis using assms
    by (simp add: set_fetched_at_def rectangular_def list_all_iff data_fields_append comp_def)
qed

lemma clean_data_stages:
  assumes "clean_data_with L ts raw = Inr df" and "df \<noteq> empty_frame"
  obtains records df0 df2 df4 where
    "extract_records raw = Inr records" "DataFrame records = Inr df0"
    "cast_types (parse_number L) (normalize_columns (snake L) df0) = Inr df2"
    "drop_duplicates (same_cell L) (drop_empty_rows df2) = Inr df4"
    "df = set_fetched_at ts df4"
  using assms
  by (auto simp: clean_data_with_def split: sum.splits if_splits)

text \<open>
  C7, as stated, fails on records that carry a field whose name becomes
  \<^verbatim>\<open>fetched_at\<close>: duplicates are removed while that field still tells the rows apart,
  and the timestamp then overwrites it.
\<close>

theorem dedup_before_provenance_counterexample:
  "clean_data table_numeric ''T''
     (JList [JDict [(''a'', JNum 1), (''fetched_at'', JStr ''x'')],
             JDict [(''a'', JNum 1), (''fetched_at'', JStr ''y'')]])
     = Inr \<lparr>columns = [''a'', ''fetched_at''],
            rows = [[JNum 1, JStr ''T''], [JNum 1, JStr ''T'']]\<rparr>"
  by (simp add: clean_defs snake_a)

text \<open>
  The model on inputs at the edge of what pandas accepts: a year beyond the 64-bit range
  cannot be cast; a frame with one column is de-duplicated although its cells are lists;
  \<^verbatim>\<open>True\<close> and 1 are the same cell; and a field that the renaming of the library
  turns into \<^verbatim>\<open>fetched_at\<close> (as Python does with a no-break space between the two
  words) collides with the timestamp column.
\<close>

lemma snake_no_break_space:
  "to_snake_case (''fetched'' @ [CHR 0xA0] @ ''at'') = ''fetched_at''"
  "to_snake_case (''Fetched'' @ [CHR 0x85, CHR 0x09] @ ''At'') = ''fetched_at''"
  "to_snake_case ([CHR 0xC0] @ ''reaCode'') = [CHR 0xE0] @ ''rea_code''"
  by (simp_all add: snake_defs)

lemma year_beyond_int64:
  "clean_data table_numeric ''T'' (JList [JDict [(''year'', JNum 9223372036854775808)]])
     = Inl TypeError"
  by (simp add: clean_defs snake_defs)

lemma single_column_of_lists:
  "clean_data table_numeric ''T''
     (JList [JDict [(''a'', JList [JNum 1])], JDict [(''a'', JList [JBool True])],
             JDict [(''a'', JList [JNum 2])]])
     = Inr \<lparr>columns = [''a'', ''fetched_at''],
            rows = [[JList [JNum 1], JStr ''T''], [JList [JNum 2], JStr ''T'']]\<rparr>"
  by (simp add: clean_defs snake_a)

lemma list_cell_among_columns:
  "clean_data table_numeric ''T'' (JList [JDict [(''a'', JList [JNum 1]), (''b'', JNum 1)]])
     = Inl TypeError"
  by (simp add: clean_defs snake_defs)

lemma true_is_one:
  "clean_data table_numeric ''T''
     (JList [JDict [(''a'', JNum 1), (''b'', JStr ''x'')],
             JDict [(''a'', JBool True), (''b'', JStr ''x'')]])
     = Inr \<lparr>columns = [''a'', ''b'', ''fetched_at''],
            rows = [[JNum 1, JStr ''x'', JStr ''T'']]\<rparr>"
  by (simp add: clean_defs snake_defs)

lemma renamed_field_collides:
  assumes "snake L ''a'' = ''a''" and "snake L name = ''fetched_at''" and "name \<noteq> ''a''"
    and "\<not> same_cell L (JStr ''x'') (JStr ''y'')"
  shows "clean_data_with L ts
           (JList [JDict [(''a'', JNum 1), (name, JStr ''x'')],
                   JDict [(''a'', JNum 1), (name, JStr ''y'')]])
         = Inr \<lparr>columns = [''a'', ''fetched_at''],
                rows = [[JNum 1, JStr ts], [JNum 1, JStr ts]]\<rparr>"
  using assms
  by (auto simp: clean_data_with_def DataFrame_def first_occurrences_def add_new_def cell_def
      normalize_columns_def cast_types_def drop_empty_rows_def data_fields_def
      drop_duplicates_def first_by_def add_unseen_def set_fetched_at_def update_column_def
      df_empty_def)

text \<open>
  C7, amended. For every response that \<open>clean_data\<close> turns into a frame, whatever the
  renaming of names, the reading of numbers and the equality of cells of the libraries
  are: no row has all its fields other than \<^verbatim>\<open>fetched_at\<close> missing; and when no field
  name of the input is renamed to \<^verbatim>\<open>fetched_at\<close>, no row agrees with an earlier row on
  all fields other than \<^verbatim>\<open>fetched_at\<close>, so that, equality of cells being reflexive, no
  two rows agree on them.
\<close>

theorem clean_data_invariants:
  assumes "clean_data_with L ts raw = Inr df"
  shows "(\<forall>r \<in> set (rows df). list_ex (\<lambda>v. v \<noteq> JNull) (data_fields (columns df) r))
       \<and> (''fetched_at'' \<notin> set (field_names (snake L) raw) \<longrightarrow>
            no_repeats (list_all2 (same_cell L)) (map (data_fields (columns df)) (rows df))
            \<and> ((\<forall>v. same_cell L v v) \<longrightarrow>
                 distinct (map (data_fields (columns df)) (rows df))))"
proof (cases "df = empty_frame")
  case True
  then show ?thesis by (simp add: empty_frame_def)
next
  case False
  from assms False obtain records df0 df2 df4 where
    ex: "extract_records raw = Inr records" and
    d0: "DataFrame records = Inr df0" and
    d2: "cast_types (parse_number L) (normalize_columns (snake L) df0) = Inr df2" and
    d4: "drop_duplicates (same_cell L) (drop_empty_rows df2) = Inr df4" and
    df: "df = set_fetched_at ts df4"
    by (rule clean_data_stages)
  have r0: "rectangular (normalize_columns (snake L) df0)"
    using DataFrame_shape(1) [OF d0] by (simp add: rectangular_def normalize_columns_def)
  have c0: "set (columns (normalize_columns (snake L) df0)) = set (field_names (snake L) raw)"
    using DataFrame_shape(2) [OF d0] ex
    by (simp add: normalize_columns_def field_names_def image_Un [symmetric] del: set_concat)
  from cast_types_shape [OF d2 r0] have r2: "rectangular df2"
    and c2: "columns df2 = columns (normalize_columns (snake L) df0)" by simp_all
  have c4: "columns df4 = columns df2"
    using drop_duplicates_shape(1) [OF d4] by (simp add: drop_empty_rows_shape(1))
  have s4: "set (rows df4) \<subseteq> set (rows (drop_empty_rows df2))"
    using drop_duplicates_shape(2) [OF d4] .
  have r4: "rectangular df4"
    using drop_empty_rows_shape(2) [OF r2] s4 c4
    by (auto simp: rectangular_def list_all_iff drop_empty_rows_shape(1))
  have fields: "map (data_fields (columns df)) (rows df) = map (data_fields (columns df4)) (rows df4)"
    unfolding df using r4 by (rule set_fetched_at_data_fields)
  have nonnull: "\<forall>r \<in> set (rows df4). list_ex (\<lambda>v. v \<noteq> JNull) (data_fields (columns df4) r)"
    using s4 c4 drop_empty_rows_shape(3) [of _ df2] by auto
  have one: "\<forall>r \<in> set (rows df). list_ex (\<lambda>v. v \<noteq> JNull) (data_fields (columns df) r)"
  proof
    fix r assume "r \<in> set (rows df)"
    then have "data_fields (columns df) r \<in> set (map (data_fields (columns df)) (rows df))"
      by simp
    then have "data_fields (columns df) r \<in> set (map (data_fields (columns df4)) (rows df4))"
      by (simp only: fields)
    then show "list_ex (\<lambda>v. v \<noteq> JNull) (data_fields (columns df) r)"
      using nonnull by auto
  qed
  have two: "no_repeats (list_all2 (same_cell L)) (map (data_fields (columns df)) (rows df))"
    if "''fetched_at'' \<notin> set (field_names (snake L) raw)"
  proof -
    from that have "''fetched_at'' \<notin> set (columns df4)" by (simp add: c4 c2 c0)
    then have "map (data_fields (columns df4)) (rows df4) = rows df4"
      using r4 by (simp add: rectangular_def list_all_iff data_fields_all map_idI)
    moreover have "rows (drop_empty_rows df2) = [] \<or> columns (drop_empty_rows df2) \<noteq> []"
      using drop_empty_rows_no_columns [of df2] by (auto simp: drop_empty_rows_shape(1))
    then have "no_repeats (list_all2 (same_cell L)) (rows df4)"
      by (rule drop_duplicates_shape(3) [OF d4])
    ultimately show ?thesis by (simp add: fields)
  qed
  have three: "distinct (map (data_fields (columns df)) (rows df))"
    if "''fetched_at'' \<notin> set (field_names (snake L) raw)" and "\<forall>v. same_cell L v v"
  proof -
    have "list_all2 (same_cell L) r r" for r
      using that(2) by (simp add: list_all2_same)
    then show ?thesis using two [OF that(1)] by (rule no_repeats_distinct)
  qed
  from one two three show ?thesis by blast
qed

theorem clean_data_invariants_witness:
  "clean_data table_numeric ''T''
     (JList [JDict [(''Year'', JStr ''2020''), (''Value'', JNull)],
             JDict [(''Year'', JStr ''2020'')],
             JDict [(''Value'', JStr ''x'')]])
     = Inr \<lparr>columns = [''year'', ''value'', ''fetched_at''],
            rows = [[JNum 2020, JNull, JStr ''T'']]\<rparr>
   \<and> ''fetched_at'' \<notin> set (field_names to_snake_case
         (JList [JDict [(''Year'', JStr ''2020''), (''Value'', JNull)],
                 JDict [(''Year'', JStr ''2020'')],
                 JDict [(''Value'', JStr ''x'')]]))
   \<and> (\<forall>v. py_eq v v)
   \<and> list_ex (\<lambda>v. v \<noteq> JNull)
        (data_fields [''year'', ''value'', ''fetched_at''] [JNum 2020, JNull, JStr ''T''])
   \<and> distinct (map (data_fields [''year'', ''value'', ''fetched_at''])
        [[JNum 2020, JNull, JStr ''T'']])"
proof -
  have run: "clean_data_with (stdlib table_numeric) ''T''
     (JList [JDict [(''Year'', JStr ''2020''), (''Value'', JNull)],
             JDict [(''Year'', JStr ''2020'')],
             JDict [(''Value'', JStr ''x'')]])
     = Inr \<lparr>columns = [''year'', ''value'', ''fetched_at''],
            rows = [[JNum 2020, JNull, JStr ''T'']]\<rparr>"
    by (simp add: clean_defs snake_Year snake_Value table_numeric_def)
  have names: "''fetched_at'' \<notin> set (field_names to_snake_case
         (JList [JDict [(''Year'', JStr ''2020''), (''Value'', JNull)],
                 JDict [(''Year'', JStr ''2020'')],
                 JDict [(''Value'', JStr ''x'')]]))"
    by (simp add: field_names_def snake_Year snake_Value)
  have refl: "\<forall>v. py_eq v v" by (simp add: py_eq_def)
  from clean_data_invariants [OF run] names refl run show ?thesis
    by (simp add: clean_data_def stdlib_def)
qed

section \<open>Properties of the orchestration\<close>

lemma send_first_ok:
  assumes "opened c" and "srv (sent w) req = Response st b" and "200 \<le> st" and "st \<le> 299"
  shows "send srv c req w = (Inr (payload st b), w\<lparr>attempts := Suc (attempts w), sent := Suc (sent w)\<rparr>)"
proof -
  have "request_attempt srv c req w
          = (Inr (payload st b), w\<lparr>attempts := Suc (attempts w), sent := Suc (sent w)\<rparr>)"
    using assms by (rule attempt_success(1))
  then show ?thesis
    unfolding send_def by (rule retry_stop) (simp add: retry_on_transient_def)
qed

lemma demo_post:
  "opened c \<Longrightarrow> post demo_server c p js w
     = (Inr (JDict [(''count'', JNum 1)]), w\<lparr>attempts := Suc (attempts w), sent := Suc (sent w)\<rparr>)"
  unfolding post_def
  by (subst send_first_ok [where st = 200 and b = "JsonBody (JDict [(''count'', JNum 1)])"])
     (simp_all add: demo_server_def payload_def)


lemma demo_get_other:
  "opened c \<Longrightarrow> p \<noteq> ''/en/data/TM'' \<Longrightarrow> get demo_server c p params w
     = (Inr (JDict [(''data'', JList [JDict [(''Year'', JStr ''2020'')]])]),
        w\<lparr>attempts := Suc (attempts w), sent := Suc (sent w)\<rparr>)"
  unfolding get_def
  by (subst send_first_ok [where st = 200
        and b = "JsonBody (JDict [(''data'', JList [JDict [(''Year'', JStr ''2020'')]])])"])
     (simp_all add: demo_server_def payload_def)

lemma demo_clean:
  "clean_data table_numeric ts (JDict [(''data'', JList [JDict [(''Year'', JStr ''2020'')]])])
     = Inr \<lparr>columns = [''year'', ''fetched_at''], rows = [[JNum 2020, JStr ts]]\<rparr>"
  by (simp add: clean_defs snake_Year table_numeric_def)


lemma demo_client:
  "new_client demo_env = Inr \<lparr>token = ''t'', base_url = ''https://api'', opened = False\<rparr>"
  by (simp add: new_client_def demo_env_def rstrip_slash_def)

lemma demo_env_fields:
  "server demo_env = demo_server" "numeric demo_env = table_numeric"
  "utcnow demo_env w = ''2024-01-01T00:00:00+00:00''"
  by (simp_all add: demo_env_def)


lemma demo_run_other:
  "code \<noteq> ''TM'' \<Longrightarrow> run_pipeline demo_env code ''en'' out tc tp codec [] True w
     = export \<lparr>columns = [''year'', ''fetched_at''],
               rows = [[JNum 2020, JStr ''2024-01-01T00:00:00+00:00'']]\<rparr> code out tc tp codec
         (w\<lparr>attempts := Suc (Suc (attempts w)), sent := Suc (Suc (sent w))\<rparr>)"
  by (simp add: run_pipeline_def demo_client aenter_def get_datasize_def demo_post get_data_def
      demo_get_other demo_env_fields wrapper_keys_def demo_clean df_empty_def Let_def)


lemma ancestors_two: "ancestors [a, b] = [[a], [a, b]]"
  by (simp add: ancestors_def upt_rec)

text \<open>
  C3, as stated, fails for the orchestrator: \<open>run_pipeline\<close> has no check of the two
  format flags. Called with both disabled it issues the size request and the data
  request, cleans, creates the output directory and returns the empty mapping.
\<close>

theorem run_pipeline_no_format_counterexample:
  "run_pipeline demo_env ''QCL'' ''en'' [''output''] False False ''snappy'' [] True world0
     = (Inr [], \<lparr>sent = 2, attempts = 2, dirs = {[''output''], [''output'', ''QCL'']},
                   files = Map.empty\<rparr>)"
  by (simp add: demo_run_other export_def mkdir_parents_def ancestors_two df_empty_def
      world0_def insert_commute)

text \<open>
  C3, amended. The check is the guard of the CLI command \<open>fetch\<close>: invoked with both
  \<^verbatim>\<open>--no-csv\<close> and \<^verbatim>\<open>--no-parquet\<close>, for any domain codes and options, it aborts and
  leaves the world as it was, so no HTTP request is issued and nothing is written.
\<close>

theorem fetch_rejects_no_format:
  "fetch e domain_codes lang output True True compression area element item year w
     = (Inl Abort, w)"
  by (simp add: fetch_def)

theorem fetch_rejects_no_format_witness:
  "fetch demo_env [''QCL''] ''en'' [''output''] True True ''snappy'' None None None
     (Some ''2020'') world0 = (Inl Abort, world0)
   \<and> sent world0 = 0"
  using fetch_rejects_no_format [of demo_env "[''QCL'']" "''en''" "[''output'']" "''snappy''"
      None None None "Some ''2020''" world0]
  by (simp add: world0_def)






end
